theory Spec2Isabelle
  imports Main
begin

section \<open>Fireblocks webhook service: the model of \<open>main.py\<close>\<close>

text \<open>
  The service has one interesting route, \<open>POST /fireblocks-webhook\<close>, which filters an
  event by its \<open>event\<close> field, formats a message and hands it to
  \<open>send_telegram_message\<close>. The model below follows \<open>main.py\<close> function by function.
  Python strings are byte lists in UTF-8; the calls of \<open>logger\<close> write to the process log
  only, influence neither a return value nor the outbound traffic, and are left out.
\<close>

subsection \<open>Values\<close>

text \<open>
  A JSON value as the handler meets it. The source never inspects a value inside
  \<open>source\<close>/\<open>destination\<close>: it only formats it in an f-string, that is, takes its
  \<open>str()\<close>. \<open>None\<close> and strings are kept as they are; any other value (boolean, number,
  list, object) is carried as the text \<open>str()\<close> gives for it.
\<close>

datatype pyval = PyNone | PyStr string | PyOther string

type_synonym dict = "(string \<times> pyval) list"

fun py_str :: "pyval \<Rightarrow> string" where
  "py_str PyNone = ''None''"
| "py_str (PyStr s) = s"
| "py_str (PyOther s) = s"

text \<open>\<open>d.get(k, default)\<close> on a dict (keys are unique in a Python dict).\<close>

definition dict_get :: "dict \<Rightarrow> string \<Rightarrow> pyval \<Rightarrow> pyval" where
  "dict_get d k dflt = (case map_of d k of None \<Rightarrow> dflt | Some v \<Rightarrow> v)"

text \<open>An \<open>Optional[str]\<close> as a JSON value (\<open>None\<close> is \<open>null\<close>).\<close>

definition opt_val :: "string option \<Rightarrow> pyval" where
  "opt_val x = (case x of None \<Rightarrow> PyNone | Some s \<Rightarrow> PyStr s)"

text \<open>Python truth of an \<open>Optional[str]\<close>: \<open>None\<close> and the empty string are false.\<close>

definition falsy :: "string option \<Rightarrow> bool" where
  "falsy x = (x = None \<or> x = Some [])"

text \<open>The pydantic model \<open>FireblocksWebhook\<close>.\<close>

record FireblocksWebhook =
  id_field :: string
  source :: "dict option"
  destination :: "dict option"
  amount :: "string option"
  assetId :: "string option"
  createdAt :: "string option"
  event :: "string option"

subsection \<open>The outside world\<close>

text \<open>
  What \<open>requests.post\<close> is given, and what comes back: a response with its
  \<open>status_code\<close> and \<open>text\<close>, or an exception (a transport fault) with its description.
\<close>

record outbound =
  url :: string
  json :: dict

datatype outcome = Response int string | Fault string

text \<open>
  The calls the service makes, in order: every call of \<open>send_telegram_message\<close> with its
  argument, and every call of \<open>requests.post\<close>, whether it returns or raises.
\<close>

datatype call = Notify string | Post outbound

text \<open>
  The world a request runs in: the process environment read by \<open>os.getenv\<close>, the messaging
  provider as the answer to each request, and the calls made so far.
\<close>

record world =
  environ :: "string \<Rightarrow> string option"
  provider :: "outbound \<Rightarrow> outcome"
  calls :: "call list"

definition posts :: "world \<Rightarrow> outbound list" where
  "posts w = concat (map (\<lambda>c. case c of Post r \<Rightarrow> [r] | Notify m \<Rightarrow> []) (calls w))"

definition notifications :: "world \<Rightarrow> string list" where
  "notifications w = concat (map (\<lambda>c. case c of Notify m \<Rightarrow> [m] | Post r \<Rightarrow> []) (calls w))"

subsection \<open>\<open>send_telegram_message\<close>\<close>

definition telegram_request :: "string \<Rightarrow> string \<Rightarrow> string \<Rightarrow> outbound" where
  "telegram_request bot_token chat_id message =
     \<lparr>url = ''https://api.telegram.org/bot'' @ bot_token @ ''/sendMessage'',
      json = [(''chat_id'', PyStr chat_id), (''text'', PyStr message),
              (''parse_mode'', PyStr ''HTML'')]\<rparr>"

definition send_telegram_message :: "string \<Rightarrow> world \<Rightarrow> bool \<times> world" where
  "send_telegram_message message w0 =
     (let w = w0\<lparr>calls := calls w0 @ [Notify message]\<rparr>;
          bot_token = environ w ''TELEGRAM_BOT_TOKEN'';
          chat_id = environ w ''TELEGRAM_CHAT_ID''
      in if falsy bot_token \<or> falsy chat_id then (False, w)
         else
           let req = telegram_request (the bot_token) (the chat_id) message;
               w' = w\<lparr>calls := calls w @ [Post req]\<rparr>
           in case provider w req of
                Response status_code body \<Rightarrow>
                  if status_code = 200 then (True, w') else (False, w')
              | Fault e \<Rightarrow> (False, w'))"

subsection \<open>\<open>format_transaction_message\<close>\<close>

text \<open>
  The bytes of the template, as they stand in the source file. The first and the last
  pictogram are each two replacement characters (U+FFFD) there.
\<close>

definition nl :: string where
  "nl = [CHR 0x0A]"

definition replacement :: string where
  "replacement = [CHR 0xEF, CHR 0xBF, CHR 0xBD]"

definition clipboard :: string where
  "clipboard = [CHR 0xF0, CHR 0x9F, CHR 0x93, CHR 0x8B]"

definition money_bag :: string where
  "money_bag = [CHR 0xF0, CHR 0x9F, CHR 0x92, CHR 0xB0]"

definition calendar :: string where
  "calendar = [CHR 0xF0, CHR 0x9F, CHR 0x93, CHR 0x85]"

definition round_pin :: string where
  "round_pin = [CHR 0xF0, CHR 0x9F, CHR 0x93, CHR 0x8D]"

text \<open>
  \<open>str.strip()\<close>: white space is removed at both ends. Python's white space is the code
  points 09-0D, 1C-1F, 20, 85, A0, 1680, 2000-200A, 2028, 2029, 202F, 205F and 3000; in
  UTF-8 the first ten are one byte each, the others two or three bytes.
\<close>

definition space1 :: "char \<Rightarrow> bool" where
  "space1 a = (a \<in> set [CHR 0x09, CHR 0x0A, CHR 0x0B, CHR 0x0C, CHR 0x0D,
                        CHR 0x1C, CHR 0x1D, CHR 0x1E, CHR 0x1F, CHR 0x20])"

definition space2 :: "char \<Rightarrow> char \<Rightarrow> bool" where
  "space2 a b = (a = CHR 0xC2 \<and> (b = CHR 0x85 \<or> b = CHR 0xA0))"

definition space3 :: "char \<Rightarrow> char \<Rightarrow> char \<Rightarrow> bool" where
  "space3 a b c =
     ((a = CHR 0xE1 \<and> b = CHR 0x9A \<and> c = CHR 0x80) \<or>
      (a = CHR 0xE2 \<and> b = CHR 0x80 \<and>
         c \<in> set [CHR 0x80, CHR 0x81, CHR 0x82, CHR 0x83, CHR 0x84, CHR 0x85, CHR 0x86,
                  CHR 0x87, CHR 0x88, CHR 0x89, CHR 0x8A, CHR 0xA8, CHR 0xA9, CHR 0xAF]) \<or>
      (a = CHR 0xE2 \<and> b = CHR 0x81 \<and> c = CHR 0x9F) \<or>
      (a = CHR 0xE3 \<and> b = CHR 0x80 \<and> c = CHR 0x80))"

fun lstrip :: "string \<Rightarrow> string" where
  "lstrip (a # b # c # cs) =
     (if space1 a then lstrip (b # c # cs)
      else if space2 a b then lstrip (c # cs)
      else if space3 a b c then lstrip cs
      else a # b # c # cs)"
| "lstrip [a, b] =
     (if space1 a then lstrip [b] else if space2 a b then [] else [a, b])"
| "lstrip [a] = (if space1 a then [] else [a])"
| "lstrip [] = []"

text \<open>The same from the right end, on the reversed string.\<close>

fun rstrip_rev :: "string \<Rightarrow> string" where
  "rstrip_rev (c # b # a # cs) =
     (if space1 c then rstrip_rev (b # a # cs)
      else if space2 b c then rstrip_rev (a # cs)
      else if space3 a b c then rstrip_rev cs
      else c # b # a # cs)"
| "rstrip_rev [c, b] =
     (if space1 c then rstrip_rev [b] else if space2 b c then [] else [c, b])"
| "rstrip_rev [c] = (if space1 c then [] else [c])"
| "rstrip_rev [] = []"

definition rstrip :: "string \<Rightarrow> string" where
  "rstrip s = rev (rstrip_rev (rev s))"

definition strip :: "string \<Rightarrow> string" where
  "strip s = rstrip (lstrip s)"

text \<open>The two kinds of replacement field of the f-string.\<close>

definition text_slot :: "string option \<Rightarrow> string" where
  \<comment> \<open>\<open>{webhook_data.amount or 'N/A'}\<close>\<close>
  "text_slot x = (if falsy x then ''N/A'' else the x)"

definition party_slot :: "dict option \<Rightarrow> string" where
  \<comment> \<open>\<open>{webhook_data.source.get('id', 'N/A') if webhook_data.source else 'N/A'}\<close>;
      \<open>None\<close> and the empty dict are false\<close>
  "party_slot x =
     (case x of
        None \<Rightarrow> ''N/A''
      | Some d \<Rightarrow> if d = [] then ''N/A'' else py_str (dict_get d ''id'' (PyStr ''N/A'')))"

definition format_transaction_message :: "FireblocksWebhook \<Rightarrow> string" where
  "format_transaction_message webhook_data =
     strip (nl @
       replacement @ replacement @ '' <b>New Transaction Created</b>'' @ nl @
       nl @
       clipboard @ '' <b>Transaction ID:</b> <code>'' @ id_field webhook_data @ ''</code>'' @ nl @
       money_bag @ '' <b>Amount:</b> '' @ text_slot (amount webhook_data) @ '' '' @
         text_slot (assetId webhook_data) @ nl @
       calendar @ '' <b>Created:</b> '' @ text_slot (createdAt webhook_data) @ nl @
       nl @
       round_pin @ '' <b>Source:</b> '' @ party_slot (source webhook_data) @ nl @
       replacement @ replacement @ '' <b>Destination:</b> '' @
         party_slot (destination webhook_data) @ nl @
       nl @
       ''#Fireblocks #Transaction'' @ nl)"

subsection \<open>\<open>fireblocks_webhook\<close>\<close>

datatype http_exception = HTTPException (status_code: int) (detail: string)

text \<open>The body of the \<open>try\<close> block: it returns a dict or raises.\<close>

definition webhook_try :: "FireblocksWebhook \<Rightarrow> world \<Rightarrow> (http_exception + dict) \<times> world" where
  "webhook_try webhook_data w =
     (if event webhook_data \<noteq> Some ''TRANSACTION_CREATED''
      then (Inr [(''message'', PyStr ''Event ignored''),
                 (''event'', opt_val (event webhook_data))], w)
      else
        let message = format_transaction_message webhook_data;
            (success, w') = send_telegram_message message w
        in if success
           then (Inr [(''message'', PyStr ''Webhook processed successfully''),
                      (''transaction_id'', PyStr (id_field webhook_data))], w')
           else (Inl (HTTPException 500 ''Failed to send Telegram notification''), w'))"

text \<open>
  The handler: the \<open>try\<close> block under \<open>except Exception as e\<close>. \<open>HTTPException\<close> is an
  \<open>Exception\<close>, so the one raised in the block is caught here as well. \<open>exc_str\<close> is
  \<open>str(e)\<close>, which the web framework defines.
\<close>

definition fireblocks_webhook ::
  "(http_exception \<Rightarrow> string) \<Rightarrow> FireblocksWebhook \<Rightarrow> world \<Rightarrow> (http_exception + dict) \<times> world" where
  "fireblocks_webhook exc_str webhook_data w =
     (case webhook_try webhook_data w of
        (Inr result, w') \<Rightarrow> (Inr result, w')
      | (Inl e, w') \<Rightarrow> (Inl (HTTPException 500 (''Internal server error: '' @ exc_str e)), w'))"

text \<open>
  What the caller of the route sees: the framework answers 200 with the returned dict, and
  turns a raised \<open>HTTPException\<close> into its status code with the body \<open>{"detail": ...}\<close>.
\<close>

record http_reply =
  status :: int
  content :: dict

definition reply :: "http_exception + dict \<Rightarrow> http_reply" where
  "reply r =
     (case r of
        Inr d \<Rightarrow> \<lparr>status = 200, content = d\<rparr>
      | Inl e \<Rightarrow> \<lparr>status = status_code e, content = [(''detail'', PyStr (detail e))]\<rparr>)"

subsection \<open>Auxiliary definitions for the statements\<close>

text \<open>
  The message with its six replacement fields filled in and the outer newlines gone:
  what \<open>format_transaction_message\<close> is shown to return.
\<close>

definition message_layout ::
  "string \<Rightarrow> string \<Rightarrow> string \<Rightarrow> string \<Rightarrow> string \<Rightarrow> string \<Rightarrow> string" where
  "message_layout i a s c src dst =
     replacement @ replacement @ '' <b>New Transaction Created</b>'' @ nl @
     nl @
     clipboard @ '' <b>Transaction ID:</b> <code>'' @ i @ ''</code>'' @ nl @
     money_bag @ '' <b>Amount:</b> '' @ a @ '' '' @ s @ nl @
     calendar @ '' <b>Created:</b> '' @ c @ nl @
     nl @
     round_pin @ '' <b>Source:</b> '' @ src @ nl @
     replacement @ replacement @ '' <b>Destination:</b> '' @ dst @ nl @
     nl @
     ''#Fireblocks #Transaction''"

text \<open>
  One instance of \<open>str(e)\<close>, used where a statement needs a concrete one: Starlette's
  \<open>HTTPException.__str__\<close>, which is \<open>f"{status_code}: {detail}"\<close>.
\<close>

fun decimal :: "nat \<Rightarrow> string" where
  "decimal n =
     (if n < 10 then [''0123456789'' ! n]
      else decimal (n div 10) @ [''0123456789'' ! (n mod 10)])"

declare decimal.simps [simp del]

definition str_int :: "int \<Rightarrow> string" where
  "str_int i = (if i < 0 then ''-'' @ decimal (nat (- i)) else decimal (nat i))"

definition starlette_str :: "http_exception \<Rightarrow> string" where
  "starlette_str e = str_int (status_code e) @ '': '' @ detail e"

text \<open>
  Example inputs: a provider that gives the same answer to every request, an environment
  with both settings, and the two events of the specification's examples.
\<close>

definition replies :: "outcome \<Rightarrow> outbound \<Rightarrow> outcome" where
  "replies r req = r"

definition configured_env :: "string \<Rightarrow> string option" where
  "configured_env =
     map_of [(''TELEGRAM_BOT_TOKEN'', ''123:abc''), (''TELEGRAM_CHAT_ID'', ''42'')]"

definition tx1 :: FireblocksWebhook where
  "tx1 = \<lparr>id_field = ''tx1'', source = None, destination = None, amount = Some ''10'',
          assetId = Some ''BTC'', createdAt = None, event = Some ''TRANSACTION_CREATED''\<rparr>"

definition tx2 :: FireblocksWebhook where
  "tx2 = \<lparr>id_field = ''tx2'', source = None, destination = None, amount = None,
          assetId = None, createdAt = None, event = Some ''TRANSACTION_PENDING''\<rparr>"

text \<open>
  A third event: \<open>source\<close> without an \<open>id\<close>, \<open>destination\<close> with \<open>"id": null\<close>, an empty
  \<open>amount\<close>, no \<open>createdAt\<close>.
\<close>

definition tx3 :: FireblocksWebhook where
  "tx3 = \<lparr>id_field = ''tx3'', source = Some [(''type'', PyStr ''VAULT_ACCOUNT'')],
          destination = Some [(''id'', PyNone)], amount = Some [],
          assetId = Some ''ETH'', createdAt = None, event = Some ''TRANSACTION_CREATED''\<rparr>"

text \<open>
  A fourth event: the three text fields empty, \<open>"id": null\<close> in both mappings.
\<close>

definition tx4 :: FireblocksWebhook where
  "tx4 = \<lparr>id_field = ''tx4'', source = Some [(''id'', PyNone)],
          destination = Some [(''id'', PyNone), (''type'', PyStr ''ONE_TIME_ADDRESS'')],
          amount = Some [], assetId = Some [], createdAt = Some [],
          event = Some ''TRANSACTION_CREATED''\<rparr>"

section \<open>Properties\<close>

subsection \<open>Shared lemmas\<close>

lemma send_unconfigured:
  "falsy (environ w ''TELEGRAM_BOT_TOKEN'') \<or> falsy (environ w ''TELEGRAM_CHAT_ID'') \<Longrightarrow>
   send_telegram_message m w = (False, w\<lparr>calls := calls w @ [Notify m]\<rparr>)"
  by (auto simp: send_telegram_message_def Let_def)

lemma send_configured:
  "\<not> falsy (environ w ''TELEGRAM_BOT_TOKEN'') \<Longrightarrow> \<not> falsy (environ w ''TELEGRAM_CHAT_ID'') \<Longrightarrow>
   send_telegram_message m w =
     ((\<exists>body. provider w (telegram_request (the (environ w ''TELEGRAM_BOT_TOKEN''))
          (the (environ w ''TELEGRAM_CHAT_ID'')) m) = Response 200 body),
      w\<lparr>calls := calls w @ [Notify m,
          Post (telegram_request (the (environ w ''TELEGRAM_BOT_TOKEN''))
            (the (environ w ''TELEGRAM_CHAT_ID'')) m)]\<rparr>)"
  by (auto simp: send_telegram_message_def Let_def split: outcome.splits)

lemma posts_calls_append [simp]:
  "posts (w\<lparr>calls := calls w @ cs\<rparr>) = posts w @ posts (w\<lparr>calls := cs\<rparr>)"
  by (simp add: posts_def)

lemma posts_calls_simps [simp]:
  "posts (w\<lparr>calls := []\<rparr>) = []"
  "posts (w\<lparr>calls := Notify m # cs\<rparr>) = posts (w\<lparr>calls := cs\<rparr>)"
  "posts (w\<lparr>calls := Post r # cs\<rparr>) = r # posts (w\<lparr>calls := cs\<rparr>)"
  by (simp_all add: posts_def)

lemma notifications_calls_append [simp]:
  "notifications (w\<lparr>calls := calls w @ cs\<rparr>) =
     notifications w @ notifications (w\<lparr>calls := cs\<rparr>)"
  by (simp add: notifications_def)

lemma notifications_calls_simps [simp]:
  "notifications (w\<lparr>calls := []\<rparr>) = []"
  "notifications (w\<lparr>calls := Notify m # cs\<rparr>) = m # notifications (w\<lparr>calls := cs\<rparr>)"
  "notifications (w\<lparr>calls := Post r # cs\<rparr>) = notifications (w\<lparr>calls := cs\<rparr>)"
  by (simp_all add: notifications_def)

text \<open>\<open>strip()\<close> takes exactly the first and the last newline of the template.\<close>

lemma format_layout:
  "format_transaction_message wd =
     message_layout (id_field wd) (text_slot (amount wd)) (text_slot (assetId wd))
       (text_slot (createdAt wd)) (party_slot (source wd)) (party_slot (destination wd))"
  unfolding format_transaction_message_def message_layout_def strip_def rstrip_def nl_def
    replacement_def
  by (simp add: space1_def space2_def space3_def)

lemma webhook_created:
  "event wd = Some ''TRANSACTION_CREATED'' \<Longrightarrow>
   fireblocks_webhook exc_str wd w =
     (if fst (send_telegram_message (format_transaction_message wd) w)
      then Inr [(''message'', PyStr ''Webhook processed successfully''),
                (''transaction_id'', PyStr (id_field wd))]
      else Inl (HTTPException 500 (''Internal server error: '' @
                  exc_str (HTTPException 500 ''Failed to send Telegram notification''))),
      snd (send_telegram_message (format_transaction_message wd) w))"
  by (simp add: fireblocks_webhook_def webhook_try_def Let_def split: prod.splits)

lemma webhook_other:
  "event wd \<noteq> Some ''TRANSACTION_CREATED'' \<Longrightarrow>
   fireblocks_webhook exc_str wd w =
     (Inr [(''message'', PyStr ''Event ignored''), (''event'', opt_val (event wd))], w)"
  by (simp add: fireblocks_webhook_def webhook_try_def)

lemma text_slot_absent: "text_slot None = ''N/A''"
  by (simp add: text_slot_def falsy_def)

lemma text_slot_empty: "text_slot (Some []) = ''N/A''"
  by (simp add: text_slot_def falsy_def)

lemma party_slot_absent: "party_slot None = ''N/A''"
  by (simp add: party_slot_def)

lemma party_slot_no_id: "map_of d ''id'' = None \<Longrightarrow> party_slot (Some d) = ''N/A''"
  by (simp add: party_slot_def dict_get_def)

lemma party_slot_id: "map_of d ''id'' = Some v \<Longrightarrow> party_slot (Some d) = py_str v"
  by (cases d) (simp_all add: party_slot_def dict_get_def)

subsection \<open>The notifier's verdict\<close>

text \<open>
  C1, as the code has it: \<open>send_telegram_message\<close> returns true exactly when both settings
  are present and non-empty and the provider answers with status 200. Every other status
  (201 to 299 included), a transport fault and a missing setting give false.
\<close>

theorem send_telegram_message_success_iff:
  "fst (send_telegram_message m w) \<longleftrightarrow>
     (\<not> falsy (environ w ''TELEGRAM_BOT_TOKEN'') \<and> \<not> falsy (environ w ''TELEGRAM_CHAT_ID'') \<and>
      (\<exists>body. provider w (telegram_request (the (environ w ''TELEGRAM_BOT_TOKEN''))
          (the (environ w ''TELEGRAM_CHAT_ID'')) m) = Response 200 body))"
proof (cases "falsy (environ w ''TELEGRAM_BOT_TOKEN'') \<or> falsy (environ w ''TELEGRAM_CHAT_ID'')")
  case True
  then show ?thesis using send_unconfigured [of w m] by auto
next
  case False
  then show ?thesis using send_configured [of w m] by simp
qed

theorem send_telegram_message_success_iff_witness:
  "fst (send_telegram_message ''hello''
     \<lparr>environ = configured_env, provider = replies (Response 200 ''ok''), calls = []\<rparr>)"
  using send_telegram_message_success_iff [of "''hello''"
     "\<lparr>environ = configured_env, provider = replies (Response 200 ''ok''), calls = []\<rparr>"]
  by (simp add: falsy_def configured_env_def replies_def)

text \<open>
  C1 as stated (every status from 200 through 299 gives true) fails: with both settings
  present, a response with status 201 gives false.
\<close>

theorem send_status_201_counterexample:
  "(200::int) \<le> 201 \<and> (201::int) \<le> 299 \<and>
   provider \<lparr>environ = configured_env, provider = replies (Response 201 ''Created''), calls = []\<rparr>
     (telegram_request ''123:abc'' ''42'' ''hello'') = Response 201 ''Created'' \<and>
   fst (send_telegram_message ''hello''
     \<lparr>environ = configured_env, provider = replies (Response 201 ''Created''), calls = []\<rparr>) = False"
  by (simp add: send_telegram_message_def falsy_def configured_env_def replies_def)

subsection \<open>The handler\<close>

text \<open>
  C2: for a \<open>TRANSACTION_CREATED\<close> event whose notification fails, the \<open>try\<close> block raises
  the delivery failure (500, "Failed to send Telegram notification"), but the handler's own
  \<open>except Exception\<close> catches it: the caller gets 500 with the detail of the generic
  internal error, "Internal server error: " followed by \<open>str(e)\<close>, whatever \<open>str\<close> is.
  Here at the event \<open>tx1\<close>, both settings present, the provider answering 500.
\<close>

theorem webhook_delivery_failure_rewrapped:
  "fst (webhook_try tx1
     \<lparr>environ = configured_env, provider = replies (Response 500 ''down''), calls = []\<rparr>)
     = Inl (HTTPException 500 ''Failed to send Telegram notification'') \<and>
   fst (fireblocks_webhook exc_str tx1
     \<lparr>environ = configured_env, provider = replies (Response 500 ''down''), calls = []\<rparr>)
     = Inl (HTTPException 500 (''Internal server error: '' @
         exc_str (HTTPException 500 ''Failed to send Telegram notification''))) \<and>
   content (reply (fst (fireblocks_webhook exc_str tx1
     \<lparr>environ = configured_env, provider = replies (Response 500 ''down''), calls = []\<rparr>)))
     \<noteq> [(''detail'', PyStr ''Failed to send Telegram notification'')]"
  by (simp add: fireblocks_webhook_def webhook_try_def send_telegram_message_def falsy_def
      configured_env_def replies_def tx1_def reply_def Let_def)

text \<open>
  C3: when the event field is anything but \<open>"TRANSACTION_CREATED"\<close> (absent included), the
  handler answers 200 with \<open>{"message": "Event ignored", "event": <value or null>}\<close> and
  makes no call at all: \<open>send_telegram_message\<close> is not invoked and nothing is posted.
\<close>

theorem webhook_ignores_other_events:
  "event wd \<noteq> Some ''TRANSACTION_CREATED'' \<Longrightarrow>
   reply (fst (fireblocks_webhook exc_str wd w)) =
     \<lparr>status = 200,
      content = [(''message'', PyStr ''Event ignored''), (''event'', opt_val (event wd))]\<rparr> \<and>
   calls (snd (fireblocks_webhook exc_str wd w)) = calls w \<and>
   notifications (snd (fireblocks_webhook exc_str wd w)) = notifications w \<and>
   posts (snd (fireblocks_webhook exc_str wd w)) = posts w"
  by (simp add: webhook_other reply_def)

theorem webhook_ignores_other_events_witness:
  "event tx2 \<noteq> Some ''TRANSACTION_CREATED'' \<and>
   reply (fst (fireblocks_webhook starlette_str tx2
     \<lparr>environ = configured_env, provider = replies (Response 200 ''ok''), calls = []\<rparr>)) =
     \<lparr>status = 200,
      content = [(''message'', PyStr ''Event ignored''),
                 (''event'', PyStr ''TRANSACTION_PENDING'')]\<rparr> \<and>
   calls (snd (fireblocks_webhook starlette_str tx2
     \<lparr>environ = configured_env, provider = replies (Response 200 ''ok''), calls = []\<rparr>)) = []"
  using webhook_ignores_other_events [of tx2 starlette_str
     "\<lparr>environ = configured_env, provider = replies (Response 200 ''ok''), calls = []\<rparr>"]
  by (simp add: tx2_def opt_val_def)

text \<open>
  C4, as the code has it: for every \<open>TRANSACTION_CREATED\<close> event the handler calls
  \<open>send_telegram_message\<close> exactly once, with the formatted message. That call issues
  exactly one HTTP POST to the provider when both settings are present and non-empty,
  whatever the provider answers, and none when a setting is missing or empty.
\<close>

theorem webhook_created_calls:
  "event wd = Some ''TRANSACTION_CREATED'' \<Longrightarrow>
   notifications (snd (fireblocks_webhook exc_str wd w)) =
     notifications w @ [format_transaction_message wd] \<and>
   posts (snd (fireblocks_webhook exc_str wd w)) =
     posts w @
     (if falsy (environ w ''TELEGRAM_BOT_TOKEN'') \<or> falsy (environ w ''TELEGRAM_CHAT_ID'')
      then []
      else [telegram_request (the (environ w ''TELEGRAM_BOT_TOKEN''))
              (the (environ w ''TELEGRAM_CHAT_ID'')) (format_transaction_message wd)])"
proof (cases "falsy (environ w ''TELEGRAM_BOT_TOKEN'') \<or> falsy (environ w ''TELEGRAM_CHAT_ID'')")
  case True
  assume "event wd = Some ''TRANSACTION_CREATED''"
  with True show ?thesis
    using send_unconfigured [of w "format_transaction_message wd"]
    by (simp add: webhook_created)
next
  case False
  assume "event wd = Some ''TRANSACTION_CREATED''"
  with False show ?thesis
    using send_configured [of w "format_transaction_message wd"]
    by (simp add: webhook_created)
qed

theorem webhook_created_calls_witness:
  "event tx1 = Some ''TRANSACTION_CREATED'' \<and>
   length (notifications (snd (fireblocks_webhook starlette_str tx1
     \<lparr>environ = configured_env, provider = replies (Fault ''timed out''), calls = []\<rparr>))) = 1 \<and>
   posts (snd (fireblocks_webhook starlette_str tx1
     \<lparr>environ = configured_env, provider = replies (Fault ''timed out''), calls = []\<rparr>)) =
     [telegram_request ''123:abc'' ''42'' (format_transaction_message tx1)]"
  using webhook_created_calls [of tx1 starlette_str
     "\<lparr>environ = configured_env, provider = replies (Fault ''timed out''), calls = []\<rparr>"]
  by (simp add: tx1_def falsy_def configured_env_def posts_def notifications_def)

text \<open>
  C4 as stated (one HTTP POST for every \<open>TRANSACTION_CREATED\<close> event) fails: with no
  settings in the environment the event \<open>tx1\<close> leads to no POST.
\<close>

theorem webhook_created_no_post_counterexample:
  "event tx1 = Some ''TRANSACTION_CREATED'' \<and>
   posts (snd (fireblocks_webhook starlette_str tx1
     \<lparr>environ = map_of [], provider = replies (Response 200 ''ok''), calls = []\<rparr>)) = []"
  by (simp add: fireblocks_webhook_def webhook_try_def send_telegram_message_def falsy_def
      tx1_def Let_def posts_def)

text \<open>
  C5: if \<open>TELEGRAM_BOT_TOKEN\<close> or \<open>TELEGRAM_CHAT_ID\<close> is absent, \<open>send_telegram_message\<close>
  returns false for every message and posts nothing, and a \<open>TRANSACTION_CREATED\<close> request
  is answered with status 500, again with nothing posted.
\<close>

theorem missing_config_no_post:
  "environ w ''TELEGRAM_BOT_TOKEN'' = None \<or> environ w ''TELEGRAM_CHAT_ID'' = None \<Longrightarrow>
   fst (send_telegram_message m w) = False \<and>
   posts (snd (send_telegram_message m w)) = posts w \<and>
   (event wd = Some ''TRANSACTION_CREATED'' \<longrightarrow>
      status (reply (fst (fireblocks_webhook exc_str wd w))) = 500 \<and>
      posts (snd (fireblocks_webhook exc_str wd w)) = posts w)"
proof -
  assume "environ w ''TELEGRAM_BOT_TOKEN'' = None \<or> environ w ''TELEGRAM_CHAT_ID'' = None"
  then have f: "falsy (environ w ''TELEGRAM_BOT_TOKEN'') \<or> falsy (environ w ''TELEGRAM_CHAT_ID'')"
    by (auto simp: falsy_def)
  have s: "\<And>m. send_telegram_message m w = (False, w\<lparr>calls := calls w @ [Notify m]\<rparr>)"
    using f by (rule send_unconfigured)
  show ?thesis
    by (simp add: s webhook_created reply_def)
qed

theorem missing_config_no_post_witness:
  "fst (send_telegram_message ''hello''
     \<lparr>environ = map_of [(''TELEGRAM_BOT_TOKEN'', ''123:abc'')],
      provider = replies (Response 200 ''ok''), calls = []\<rparr>) = False \<and>
   posts (snd (send_telegram_message ''hello''
     \<lparr>environ = map_of [(''TELEGRAM_BOT_TOKEN'', ''123:abc'')],
      provider = replies (Response 200 ''ok''), calls = []\<rparr>)) = [] \<and>
   status (reply (fst (fireblocks_webhook starlette_str tx1
     \<lparr>environ = map_of [(''TELEGRAM_BOT_TOKEN'', ''123:abc'')],
      provider = replies (Response 200 ''ok''), calls = []\<rparr>))) = 500 \<and>
   posts (snd (fireblocks_webhook starlette_str tx1
     \<lparr>environ = map_of [(''TELEGRAM_BOT_TOKEN'', ''123:abc'')],
      provider = replies (Response 200 ''ok''), calls = []\<rparr>)) = []"
  using missing_config_no_post [of
     "\<lparr>environ = map_of [(''TELEGRAM_BOT_TOKEN'', ''123:abc'')],
       provider = replies (Response 200 ''ok''), calls = []\<rparr>" "''hello''" tx1 starlette_str]
  by (simp add: tx1_def posts_def)

text \<open>
  C7: for a \<open>TRANSACTION_CREATED\<close> event whose notification succeeds, the handler answers
  200 with \<open>{"message": "Webhook processed successfully", "transaction_id": <id>}\<close>. The
  witness is the specification's example: the event \<open>tx1\<close>, both settings present, the
  provider answering 200.
\<close>

theorem webhook_success_ack:
  "event wd = Some ''TRANSACTION_CREATED'' \<Longrightarrow>
   fst (send_telegram_message (format_transaction_message wd) w) \<Longrightarrow>
   reply (fst (fireblocks_webhook exc_str wd w)) =
     \<lparr>status = 200,
      content = [(''message'', PyStr ''Webhook processed successfully''),
                 (''transaction_id'', PyStr (id_field wd))]\<rparr>"
  by (simp add: webhook_created reply_def)

theorem webhook_success_ack_witness:
  "event tx1 = Some ''TRANSACTION_CREATED'' \<and>
   fst (send_telegram_message (format_transaction_message tx1)
     \<lparr>environ = configured_env, provider = replies (Response 200 ''ok''), calls = []\<rparr>) \<and>
   reply (fst (fireblocks_webhook starlette_str tx1
     \<lparr>environ = configured_env, provider = replies (Response 200 ''ok''), calls = []\<rparr>)) =
     \<lparr>status = 200,
      content = [(''message'', PyStr ''Webhook processed successfully''),
                 (''transaction_id'', PyStr ''tx1'')]\<rparr>"
  using webhook_success_ack [of tx1
     "\<lparr>environ = configured_env, provider = replies (Response 200 ''ok''), calls = []\<rparr>"
     starlette_str]
  by (simp add: tx1_def send_telegram_message_def falsy_def configured_env_def replies_def)

text \<open>
  C8: a setting that is the empty string counts as absent. If \<open>TELEGRAM_BOT_TOKEN\<close> or
  \<open>TELEGRAM_CHAT_ID\<close> is set to \<open>""\<close>, \<open>send_telegram_message\<close> returns false and posts
  nothing, and it returns the same and makes the same calls as with that variable unset.
\<close>

theorem empty_config_as_absent:
  "k = ''TELEGRAM_BOT_TOKEN'' \<or> k = ''TELEGRAM_CHAT_ID'' \<Longrightarrow> environ w k = Some [] \<Longrightarrow>
   fst (send_telegram_message m w) = False \<and>
   posts (snd (send_telegram_message m w)) = posts w \<and>
   fst (send_telegram_message m (w\<lparr>environ := (environ w)(k := None)\<rparr>)) =
     fst (send_telegram_message m w) \<and>
   calls (snd (send_telegram_message m (w\<lparr>environ := (environ w)(k := None)\<rparr>))) =
     calls (snd (send_telegram_message m w))"
proof -
  assume k: "k = ''TELEGRAM_BOT_TOKEN'' \<or> k = ''TELEGRAM_CHAT_ID''" and e: "environ w k = Some []"
  let ?w' = "w\<lparr>environ := (environ w)(k := None)\<rparr>"
  from k e have "falsy (environ w ''TELEGRAM_BOT_TOKEN'') \<or> falsy (environ w ''TELEGRAM_CHAT_ID'')"
    by (auto simp: falsy_def)
  then have 1: "send_telegram_message m w = (False, w\<lparr>calls := calls w @ [Notify m]\<rparr>)"
    by (rule send_unconfigured)
  from k have "falsy (environ ?w' ''TELEGRAM_BOT_TOKEN'') \<or> falsy (environ ?w' ''TELEGRAM_CHAT_ID'')"
    by (auto simp: falsy_def)
  then have 2: "send_telegram_message m ?w' = (False, ?w'\<lparr>calls := calls ?w' @ [Notify m]\<rparr>)"
    by (rule send_unconfigured)
  show ?thesis by (simp add: 1 2)
qed

theorem empty_config_as_absent_witness:
  "environ \<lparr>environ = map_of [(''TELEGRAM_BOT_TOKEN'', ''123:abc''), (''TELEGRAM_CHAT_ID'', [])],
      provider = replies (Response 200 ''ok''), calls = []\<rparr> ''TELEGRAM_CHAT_ID'' = Some [] \<and>
   fst (send_telegram_message ''hello''
     \<lparr>environ = map_of [(''TELEGRAM_BOT_TOKEN'', ''123:abc''), (''TELEGRAM_CHAT_ID'', [])],
      provider = replies (Response 200 ''ok''), calls = []\<rparr>) = False \<and>
   posts (snd (send_telegram_message ''hello''
     \<lparr>environ = map_of [(''TELEGRAM_BOT_TOKEN'', ''123:abc''), (''TELEGRAM_CHAT_ID'', [])],
      provider = replies (Response 200 ''ok''), calls = []\<rparr>)) = []"
  using empty_config_as_absent [of "''TELEGRAM_CHAT_ID''"
     "\<lparr>environ = map_of [(''TELEGRAM_BOT_TOKEN'', ''123:abc''), (''TELEGRAM_CHAT_ID'', [])],
       provider = replies (Response 200 ''ok''), calls = []\<rparr>" "''hello''"]
  by (simp add: posts_def)

subsection \<open>The formatted message\<close>

text \<open>
  C6: each of \<open>amount\<close>, \<open>assetId\<close>, \<open>createdAt\<close>, \<open>source\<close> and \<open>destination\<close> that is
  missing renders as \<open>N/A\<close> in its own place of the message, the other places rendering as
  they do for any event; a \<open>source\<close> or \<open>destination\<close> mapping without an \<open>id\<close> renders as
  \<open>N/A\<close> too.
\<close>

theorem format_missing_fields:
  "(amount wd = None \<longrightarrow>
      format_transaction_message wd =
        message_layout (id_field wd) ''N/A'' (text_slot (assetId wd))
          (text_slot (createdAt wd)) (party_slot (source wd)) (party_slot (destination wd))) \<and>
   (assetId wd = None \<longrightarrow>
      format_transaction_message wd =
        message_layout (id_field wd) (text_slot (amount wd)) ''N/A''
          (text_slot (createdAt wd)) (party_slot (source wd)) (party_slot (destination wd))) \<and>
   (createdAt wd = None \<longrightarrow>
      format_transaction_message wd =
        message_layout (id_field wd) (text_slot (amount wd)) (text_slot (assetId wd))
          ''N/A'' (party_slot (source wd)) (party_slot (destination wd))) \<and>
   (source wd = None \<or> (\<exists>d. source wd = Some d \<and> map_of d ''id'' = None) \<longrightarrow>
      format_transaction_message wd =
        message_layout (id_field wd) (text_slot (amount wd)) (text_slot (assetId wd))
          (text_slot (createdAt wd)) ''N/A'' (party_slot (destination wd))) \<and>
   (destination wd = None \<or> (\<exists>d. destination wd = Some d \<and> map_of d ''id'' = None) \<longrightarrow>
      format_transaction_message wd =
        message_layout (id_field wd) (text_slot (amount wd)) (text_slot (assetId wd))
          (text_slot (createdAt wd)) (party_slot (source wd)) ''N/A'')"
  by (auto simp: format_layout text_slot_absent party_slot_absent party_slot_no_id)

theorem format_missing_fields_witness:
  "amount tx2 = None \<and> assetId tx2 = None \<and> createdAt tx2 = None \<and> source tx2 = None \<and>
   destination tx2 = None \<and>
   format_transaction_message tx2 =
     message_layout ''tx2'' ''N/A'' ''N/A'' ''N/A'' ''N/A'' ''N/A'' \<and>
   (\<exists>d. source tx3 = Some d \<and> map_of d ''id'' = None) \<and>
   format_transaction_message tx3 =
     message_layout ''tx3'' ''N/A'' ''ETH'' ''N/A'' ''N/A'' ''None''"
  using format_missing_fields [of tx2] format_missing_fields [of tx3]
  by (simp add: tx2_def tx3_def text_slot_def falsy_def party_slot_def dict_get_def)

text \<open>
  C10: an \<open>amount\<close>, \<open>assetId\<close> or \<open>createdAt\<close> that is present but the empty string renders
  as \<open>N/A\<close>, and the whole message is the one of the event with that field absent.
\<close>

theorem format_empty_string_fields:
  "(amount wd = Some [] \<longrightarrow>
      format_transaction_message wd = format_transaction_message (wd\<lparr>amount := None\<rparr>) \<and>
      format_transaction_message wd =
        message_layout (id_field wd) ''N/A'' (text_slot (assetId wd))
          (text_slot (createdAt wd)) (party_slot (source wd)) (party_slot (destination wd))) \<and>
   (assetId wd = Some [] \<longrightarrow>
      format_transaction_message wd = format_transaction_message (wd\<lparr>assetId := None\<rparr>) \<and>
      format_transaction_message wd =
        message_layout (id_field wd) (text_slot (amount wd)) ''N/A''
          (text_slot (createdAt wd)) (party_slot (source wd)) (party_slot (destination wd))) \<and>
   (createdAt wd = Some [] \<longrightarrow>
      format_transaction_message wd = format_transaction_message (wd\<lparr>createdAt := None\<rparr>) \<and>
      format_transaction_message wd =
        message_layout (id_field wd) (text_slot (amount wd)) (text_slot (assetId wd))
          ''N/A'' (party_slot (source wd)) (party_slot (destination wd)))"
  by (simp add: format_layout text_slot_absent text_slot_empty)

theorem format_empty_string_fields_witness:
  "amount tx4 = Some [] \<and> assetId tx4 = Some [] \<and> createdAt tx4 = Some [] \<and>
   format_transaction_message tx4 = format_transaction_message (tx4\<lparr>amount := None\<rparr>) \<and>
   format_transaction_message tx4 = format_transaction_message (tx4\<lparr>assetId := None\<rparr>) \<and>
   format_transaction_message tx4 = format_transaction_message (tx4\<lparr>createdAt := None\<rparr>) \<and>
   format_transaction_message tx4 =
     message_layout ''tx4'' ''N/A'' ''N/A'' ''N/A'' ''None'' ''None''"
  using format_empty_string_fields [of tx4]
  by (auto simp: tx4_def text_slot_def falsy_def party_slot_def dict_get_def)

text \<open>
  C9, as the code has it: a \<open>source\<close> (or \<open>destination\<close>) mapping whose \<open>id\<close> is null renders
  the text \<open>None\<close> in its place, not \<open>N/A\<close>. The place shows \<open>N/A\<close> only when the mapping is
  absent, when it has no \<open>id\<close> key (the empty mapping included), or when the value of \<open>id\<close>
  itself renders as \<open>N/A\<close>.
\<close>

theorem party_null_id_renders_None:
  "(source wd = Some d \<and> map_of d ''id'' = Some PyNone \<longrightarrow>
      format_transaction_message wd =
        message_layout (id_field wd) (text_slot (amount wd)) (text_slot (assetId wd))
          (text_slot (createdAt wd)) ''None'' (party_slot (destination wd))) \<and>
   (destination wd = Some d \<and> map_of d ''id'' = Some PyNone \<longrightarrow>
      format_transaction_message wd =
        message_layout (id_field wd) (text_slot (amount wd)) (text_slot (assetId wd))
          (text_slot (createdAt wd)) (party_slot (source wd)) ''None'') \<and>
   (party_slot x = ''N/A'' \<longrightarrow>
      x = None \<or>
      (\<exists>d'. x = Some d' \<and>
         (map_of d' ''id'' = None \<or> (\<exists>v. map_of d' ''id'' = Some v \<and> py_str v = ''N/A''))))"
proof -
  have "party_slot x = ''N/A'' \<longrightarrow>
      x = None \<or>
      (\<exists>d'. x = Some d' \<and>
         (map_of d' ''id'' = None \<or> (\<exists>v. map_of d' ''id'' = Some v \<and> py_str v = ''N/A'')))"
  proof (cases x)
    case None
    then show ?thesis by simp
  next
    case (Some d')
    show ?thesis
    proof (cases "map_of d' ''id''")
      case None
      with Some show ?thesis by simp
    next
      case (Some v)
      with \<open>x = Some d'\<close> show ?thesis by (simp add: party_slot_id)
    qed
  qed
  then show ?thesis
    by (simp add: format_layout party_slot_id)
qed

theorem party_null_id_renders_None_witness:
  "source tx4 = Some [(''id'', PyNone)] \<and>
   map_of [(''id'', PyNone)] ''id'' = Some PyNone \<and>
   destination tx3 = Some [(''id'', PyNone)] \<and>
   format_transaction_message tx4 =
     message_layout ''tx4'' ''N/A'' ''N/A'' ''N/A'' ''None'' ''None'' \<and>
   format_transaction_message tx3 =
     message_layout ''tx3'' ''N/A'' ''ETH'' ''N/A'' ''N/A'' ''None'' \<and>
   party_slot (Some [(''type'', PyStr ''VAULT_ACCOUNT'')]) = ''N/A'' \<and>
   map_of [(''type'', PyStr ''VAULT_ACCOUNT'')] ''id'' = None"
  using party_null_id_renders_None [of tx4 "[(''id'', PyNone)]" "Some [(''type'', PyStr ''VAULT_ACCOUNT'')]"]
    party_null_id_renders_None [of tx3 "[(''id'', PyNone)]" "Some [(''type'', PyStr ''VAULT_ACCOUNT'')]"]
  by (simp add: tx3_def tx4_def text_slot_def falsy_def party_slot_def dict_get_def)

text \<open>
  C9 as stated (\<open>N/A\<close> appears only when the mapping or its \<open>id\<close> key is absent) fails: a
  \<open>source\<close> that is present and whose \<open>id\<close> is the string \<open>"N/A"\<close> shows \<open>N/A\<close>.
\<close>

theorem party_literal_na_counterexample:
  "map_of [(''id'', PyStr ''N/A'')] ''id'' = Some (PyStr ''N/A'') \<and>
   party_slot (Some [(''id'', PyStr ''N/A'')]) = ''N/A'' \<and>
   format_transaction_message (tx1\<lparr>source := Some [(''id'', PyStr ''N/A'')]\<rparr>) =
     message_layout ''tx1'' ''10'' ''BTC'' ''N/A'' ''N/A'' ''N/A''"
  by (simp add: format_layout tx1_def text_slot_def falsy_def party_slot_def dict_get_def)

end
